theory Spec2Isabelle
  imports Main "HOL-Library.Word" "HOL-Library.List_Lexorder" "HOL-Library.Multiset"
    "HOL-Library.AList"
begin

section \<open>Python values\<close>

text \<open>
  A Python \<open>str\<close> is a sequence of Unicode code points: \<open>len\<close>, slicing and comparison
  all work on code points, so a string is a list of code points here, compared
  lexicographically (a proper prefix is smaller), as Python compares strings.
  \<open>py\<close> writes an ASCII literal.
\<close>

type_synonym pystr = "nat list"

definition py :: "string \<Rightarrow> pystr" where
  "py s = map of_char s"

text \<open>
  The library functions the scraper calls and that are not part of its source are
  parameters of the model: \<open>str.casefold\<close>, \<open>urllib.parse.urljoin\<close>, \<open>str.isalnum\<close> on
  the code points above ASCII (what \<open>\w\<close> matches there),
  \<open>hashlib.sha1(s.encode("utf-8")).digest()\<close>, read as a 160-bit number, and \<open>int\<close> of
  a string, \<open>None\<close> where Python raises \<open>ValueError\<close>.
\<close>

record pylib =
  casefold :: "pystr \<Rightarrow> pystr"
  urljoin :: "pystr \<Rightarrow> pystr \<Rightarrow> pystr"
  isalnum :: "nat \<Rightarrow> bool"
  sha1 :: "pystr \<Rightarrow> 160 word"
  int_of_str :: "pystr \<Rightarrow> int option"

text \<open>
  The values a row holds: the table cells, link hints and \<open>_query\<close> are strings,
  \<open>_row_index\<close> is an integer, and \<open>row.get\<close> of a missing key is \<open>None\<close>.
\<close>

datatype pyval = PNone | PStr pystr | PInt int

text \<open>
  A row is a Python \<open>dict\<close>: its items in insertion order. \<open>row[k] = v\<close> is
  \<open>AList.update k v row\<close> (overwrite in place, or append at the end), \<open>row.get(k)\<close>
  is \<open>dict_get\<close>. The keys of a \<open>dict\<close> are distinct.
\<close>

type_synonym row = "(pystr \<times> pyval) list"

definition dict_get :: "row \<Rightarrow> pystr \<Rightarrow> pyval" where
  "dict_get r k = (case map_of r k of None \<Rightarrow> PNone | Some v \<Rightarrow> v)"

subsection \<open>String primitives\<close>

text \<open>\<open>str.isspace\<close> of one code point, the characters \<open>str.strip()\<close> removes.\<close>

definition is_space :: "nat \<Rightarrow> bool" where
  "is_space c \<longleftrightarrow> (9 \<le> c \<and> c \<le> 13) \<or> (28 \<le> c \<and> c \<le> 32) \<or> c = 133 \<or> c = 160
     \<or> c = 5760 \<or> (8192 \<le> c \<and> c \<le> 8202) \<or> c = 8232 \<or> c = 8233 \<or> c = 8239
     \<or> c = 8287 \<or> c = 12288"

definition rstrip_chars :: "(nat \<Rightarrow> bool) \<Rightarrow> pystr \<Rightarrow> pystr" where
  "rstrip_chars P s = rev (dropWhile P (rev s))"

definition strip_chars :: "(nat \<Rightarrow> bool) \<Rightarrow> pystr \<Rightarrow> pystr" where
  "strip_chars P s = rstrip_chars P (dropWhile P s)"

definition strip :: "pystr \<Rightarrow> pystr" where
  "strip s = strip_chars is_space s"

definition startswith :: "pystr \<Rightarrow> pystr \<Rightarrow> bool" where
  "startswith s p \<longleftrightarrow> take (length p) s = p"

text \<open>\<open>m in s\<close> for strings: \<open>m\<close> occurs in \<open>s\<close> as a substring.\<close>

fun contains :: "pystr \<Rightarrow> pystr \<Rightarrow> bool" where
  "contains [] m = (m = [])"
| "contains (c # cs) m = (startswith (c # cs) m \<or> contains cs m)"

text \<open>\<open>str(n)\<close> of an integer: its decimal digits, with a sign.\<close>

fun digits :: "nat \<Rightarrow> pystr" where
  "digits n = (if n < 10 then [48 + n] else digits (n div 10) @ [48 + n mod 10])"

declare digits.simps [simp del]

definition str_int :: "int \<Rightarrow> pystr" where
  "str_int i = (if i < 0 then 45 # digits (nat (- i)) else digits (nat i))"

fun str_of :: "pyval \<Rightarrow> pystr" where
  "str_of PNone = py ''None''"
| "str_of (PStr s) = s"
| "str_of (PInt i) = str_int i"

fun normalize :: "pyval \<Rightarrow> pystr" where
  "normalize PNone = []"
| "normalize v = strip (str_of v)"

subsection \<open>\<open>json.dumps(d, sort_keys=True, ensure_ascii=False)\<close>\<close>

definition hexdigit :: "nat \<Rightarrow> nat" where
  "hexdigit d = (if d < 10 then 48 + d else 87 + d)"

text \<open>
  The encoder escapes the quote, the backslash and the control characters below
  \<open>0x20\<close>; with \<open>ensure_ascii=False\<close> every other code point is written as it is.
  Code point 34 is the double quote and 92 the backslash.
\<close>

definition json_escape_char :: "nat \<Rightarrow> pystr" where
  "json_escape_char c =
     (if c = 34 then [92, 34]
      else if c = 92 then [92, 92]
      else if c = 8 then 92 # py ''b''
      else if c = 12 then 92 # py ''f''
      else if c = 10 then 92 # py ''n''
      else if c = 13 then 92 # py ''r''
      else if c = 9 then 92 # py ''t''
      else if c < 32 then 92 # py ''u00'' @ [hexdigit (c div 16), hexdigit (c mod 16)]
      else [c])"

definition json_str :: "pystr \<Rightarrow> pystr" where
  "json_str s = [34] @ concat (map json_escape_char s) @ [34]"

fun json_value :: "pyval \<Rightarrow> pystr" where
  "json_value PNone = py ''null''"
| "json_value (PStr s) = json_str s"
| "json_value (PInt i) = str_int i"

fun join :: "pystr \<Rightarrow> pystr list \<Rightarrow> pystr" where
  "join sep [] = []"
| "join sep [x] = x"
| "join sep (x # y # ys) = x @ sep @ join sep (y # ys)"

text \<open>
  \<open>sort_keys=True\<close> sorts the items; the keys of a \<open>dict\<close> are distinct, so the
  items are ordered by key. Items are joined with \<open>", "\<close>, key and value with \<open>": "\<close>.
\<close>

definition json_item :: "pystr \<times> pyval \<Rightarrow> pystr" where
  "json_item kv = json_str (fst kv) @ py '': '' @ json_value (snd kv)"

definition json_dumps_sorted :: "row \<Rightarrow> pystr" where
  "json_dumps_sorted d = py ''{'' @ join (py '', '') (map json_item (sort_key fst d)) @ py ''}''"

section \<open>Result Canonicalizer\<close>

definition key_markers :: "pystr list" where
  "key_markers =
     [py ''nyilvantartasi'',
      py ''nyilv'' @ [225] @ py ''ntart'' @ [225] @ py ''si'',
      py ''pecsetszam'',
      py ''pecs'' @ [233] @ py ''tsz'' @ [225] @ py ''m'',
      py ''azonosito'',
      py ''azonos'' @ [237] @ py ''t'' @ [243]]"

definition name_markers :: "pystr list" where
  "name_markers = [py ''nev'', [110, 233, 118]]"

text \<open>\<open>k.startswith("_")\<close>: the key is a retrieval hint, not a column of the listing.\<close>

definition is_hint :: "pystr \<Rightarrow> bool" where
  "is_hint k \<longleftrightarrow> startswith k (py ''_'')"

definition has_marker :: "pylib \<Rightarrow> pystr list \<Rightarrow> pystr \<Rightarrow> bool" where
  "has_marker L markers k \<longleftrightarrow> list_ex (contains (casefold L k)) markers"

text \<open>
  The first loop of \<open>row_key\<close>: the value of the first non-hint column whose label
  holds an identifier marker and whose value is not empty; \<open>None\<close> when the loop
  falls through.
\<close>

fun id_scan :: "pylib \<Rightarrow> row \<Rightarrow> pystr option" where
  "id_scan L [] = None"
| "id_scan L ((k, v) # r) =
     (if is_hint k then id_scan L r
      else if has_marker L key_markers k then
        (let val = normalize v in if val \<noteq> [] then Some val else id_scan L r)
      else id_scan L r)"

text \<open>
  The second loop, with its variable \<open>name\<close>: assigned at every non-hint column
  whose label holds a name marker, the loop breaking at the first non-empty value.
\<close>

fun name_scan :: "pylib \<Rightarrow> pystr \<Rightarrow> row \<Rightarrow> pystr" where
  "name_scan L name [] = name"
| "name_scan L name ((k, v) # r) =
     (if is_hint k then name_scan L name r
      else if has_marker L name_markers k then
        (let name' = normalize v in if name' \<noteq> [] then name' else name_scan L name' r)
      else name_scan L name r)"

definition canonical :: "row \<Rightarrow> row" where
  "canonical r = filter (\<lambda>kv. \<not> is_hint (fst kv)) r"

definition row_key :: "pylib \<Rightarrow> row \<Rightarrow> pystr" where
  "row_key L r =
     (case id_scan L r of
        Some val \<Rightarrow> py ''id:'' @ val
      | None \<Rightarrow> py ''name:'' @ name_scan L [] r @ py ''|row:'' @ json_dumps_sorted (canonical r))"

text \<open>
  An instance of the library to evaluate on: lower-casing of ASCII letters for
  \<open>casefold\<close>, and \<open>urljoin\<close> of a reference that is already an absolute URL, which
  is the reference itself. It agrees with Python on ASCII labels and absolute
  references, the inputs it is used on below; the other three functions are not
  consulted on those inputs (the strings are ASCII, the digest is never evaluated
  and every \<open>_row_index\<close> is an integer).
\<close>

definition ascii_lower :: "nat \<Rightarrow> nat" where
  "ascii_lower c = (if 65 \<le> c \<and> c \<le> 90 then c + 32 else c)"

definition lib0 :: pylib where
  "lib0 = \<lparr>casefold = map ascii_lower, urljoin = (\<lambda>base u. u),
           isalnum = (\<lambda>c. False), sha1 = (\<lambda>s. 0), int_of_str = (\<lambda>s. None)\<rparr>"

text \<open>
  The non-empty values of the columns \<open>row_key\<close> can take the identifier from, and
  of those it can take the name from, in the order of the row.
\<close>

definition id_values :: "pylib \<Rightarrow> row \<Rightarrow> pystr list" where
  "id_values L r = filter (\<lambda>s. s \<noteq> [])
     (map (\<lambda>kv. normalize (snd kv))
        (filter (\<lambda>kv. has_marker L key_markers (fst kv)) (canonical r)))"

definition name_values :: "pylib \<Rightarrow> row \<Rightarrow> pystr list" where
  "name_values L r = filter (\<lambda>s. s \<noteq> [])
     (map (\<lambda>kv. normalize (snd kv))
        (filter (\<lambda>kv. has_marker L name_markers (fst kv)) (canonical r)))"

text \<open>Rows to evaluate on.\<close>

definition two_id_row :: row where
  "two_id_row = [(py ''pecsetszam'', PStr (py ''1'')), (py ''azonosito'', PStr (py ''2''))]"

definition name_city_row :: row where
  "name_city_row =
     [(py ''Nev'', PStr (py ''Dr A'')), (py ''Varos'', PStr (py ''Vac'')),
      (py ''_row_index'', PInt 3)]"

section \<open>Artifact names and detail URLs\<close>

text \<open>
  \<open>first_row_value_by_markers\<close>: the first non-empty value of a column whose label
  holds one of the markers. Unlike \<open>row_key\<close> it does not skip the hint fields.
\<close>

fun first_row_value_by_markers :: "pylib \<Rightarrow> row \<Rightarrow> pystr list \<Rightarrow> pystr" where
  "first_row_value_by_markers L [] markers = []"
| "first_row_value_by_markers L ((key, v) # r) markers =
     (if has_marker L markers key then
        (let val = normalize v in
         if val \<noteq> [] then val else first_row_value_by_markers L r markers)
      else first_row_value_by_markers L r markers)"

text \<open>
  \<open>\w\<close> of a Unicode pattern: the underscore and the alphanumeric characters, the
  ASCII ones written out; \<open>[\w\-.]\<close> adds the hyphen (45) and the dot (46).
\<close>

definition is_word :: "pylib \<Rightarrow> nat \<Rightarrow> bool" where
  "is_word L c \<longleftrightarrow> (48 \<le> c \<and> c \<le> 57) \<or> (65 \<le> c \<and> c \<le> 90) \<or> (97 \<le> c \<and> c \<le> 122)
     \<or> c = 95 \<or> (128 \<le> c \<and> isalnum L c)"

definition is_name_char :: "pylib \<Rightarrow> nat \<Rightarrow> bool" where
  "is_name_char L c \<longleftrightarrow> is_word L c \<or> c = 45 \<or> c = 46"

text \<open>
  \<open>re.sub(r"[^\w\-.]+", "_", value)\<close>: every maximal run of characters outside the
  class is replaced by the replacement.
\<close>

function sub_runs :: "(nat \<Rightarrow> bool) \<Rightarrow> pystr \<Rightarrow> pystr \<Rightarrow> pystr" where
  "sub_runs keep repl [] = []"
| "sub_runs keep repl (c # cs) =
     (if keep c then c # sub_runs keep repl cs
      else repl @ sub_runs keep repl (dropWhile (\<lambda>x. \<not> keep x) cs))"
  by pat_completeness auto
termination
  by (relation "measure (\<lambda>(keep, repl, s). length s)")
     (auto simp: less_Suc_eq_le length_dropWhile_le)

text \<open>\<open>.strip("._")\<close>, then \<open>cleaned[:90] or "unknown"\<close>.\<close>

definition sanitize_filename :: "pylib \<Rightarrow> pystr \<Rightarrow> pystr" where
  "sanitize_filename L v =
     (let cleaned = strip_chars (\<lambda>c. c = 46 \<or> c = 95) (sub_runs (is_name_char L) (py ''_'') v);
          s = take 90 cleaned
      in if s \<noteq> [] then s else py ''unknown'')"

text \<open>
  \<open>re.findall\<close> of a quote (39 or 34), one or more characters that are not quotes,
  and a quote: the matches from left to right, without overlap, each reported by its
  group. Where the match fails at a quote, the search goes on one character later.
\<close>

definition is_quote :: "nat \<Rightarrow> bool" where
  "is_quote c \<longleftrightarrow> c = 39 \<or> c = 34"

function findall_quoted :: "pystr \<Rightarrow> pystr list" where
  "findall_quoted [] = []"
| "findall_quoted (c # cs) =
     (if is_quote c \<and> takeWhile (\<lambda>x. \<not> is_quote x) cs \<noteq> []
         \<and> dropWhile (\<lambda>x. \<not> is_quote x) cs \<noteq> []
      then takeWhile (\<lambda>x. \<not> is_quote x) cs
             # findall_quoted (tl (dropWhile (\<lambda>x. \<not> is_quote x) cs))
      else findall_quoted cs)"
  by pat_completeness auto
termination
  by (relation "measure length")
     (auto simp: less_Suc_eq_le intro: le_trans[OF diff_le_self length_dropWhile_le])


text \<open>
  The loop of \<open>extract_url_from_js\<close> over the quoted tokens: a token that starts with
  \<open>http://\<close>, \<open>https://\<close> or \<open>/\<close> is resolved and returned unless it resolves to the
  base URL; any other token is returned, resolved, when it holds one of the markers
  \<open>adatlap\<close>, \<open>pdf\<close>, \<open>print\<close>.
\<close>

definition is_slash :: "nat \<Rightarrow> bool" where
  "is_slash c \<longleftrightarrow> c = 47"

definition is_url_like :: "pystr \<Rightarrow> bool" where
  "is_url_like t \<longleftrightarrow> startswith t (py ''http://'') \<or> startswith t (py ''https://'')
     \<or> startswith t (py ''/'')"

definition doc_markers :: "pystr list" where
  "doc_markers = [py ''adatlap'', py ''pdf'', py ''print'']"

fun scan_tokens :: "pylib \<Rightarrow> pystr \<Rightarrow> pystr list \<Rightarrow> pystr" where
  "scan_tokens L base_url [] = []"
| "scan_tokens L base_url (token # ts) =
     (let token_norm = strip token in
      if token_norm = [] then scan_tokens L base_url ts
      else if token_norm = py ''/'' \<or> token_norm = py ''#'' then scan_tokens L base_url ts
      else if is_url_like token_norm then
        (let resolved = urljoin L base_url token_norm in
         if rstrip_chars is_slash resolved = rstrip_chars is_slash base_url
         then scan_tokens L base_url ts
         else resolved)
      else if has_marker L doc_markers token_norm then urljoin L base_url token_norm
      else scan_tokens L base_url ts)"

definition extract_url_from_js :: "pylib \<Rightarrow> pystr \<Rightarrow> pystr \<Rightarrow> pystr" where
  "extract_url_from_js L js_code base_url =
     (if js_code = [] then [] else scan_tokens L base_url (findall_quoted js_code))"

definition is_useless_detail_url :: "pylib \<Rightarrow> pystr \<Rightarrow> pystr \<Rightarrow> bool" where
  "is_useless_detail_url L url base_url =
     (let url_norm = normalize (PStr url) in
      if url_norm = [] then True
      else if url_norm = py ''/'' \<or> url_norm = py ''#'' then True
      else if rstrip_chars is_slash (urljoin L base_url url_norm) = rstrip_chars is_slash base_url
      then True
      else False)"

definition detail_url_from_row :: "pylib \<Rightarrow> row \<Rightarrow> pystr \<Rightarrow> pystr" where
  "detail_url_from_row L r base_url =
     (let direct = normalize (dict_get r (py ''_detail_url'')) in
      if direct \<noteq> [] \<and> \<not> is_useless_detail_url L direct base_url then direct
      else
        (let href = normalize (dict_get r (py ''_detail_href'')) in
         if href \<noteq> [] \<and> \<not> startswith (casefold L href) (py ''javascript:'')
            \<and> \<not> is_useless_detail_url L href base_url
         then urljoin L base_url href
         else
           (let onclick = normalize (dict_get r (py ''_detail_onclick''));
                parsed = extract_url_from_js L onclick base_url
            in if parsed \<noteq> [] then parsed else [])))"

text \<open>
  \<open>hexdigest()\<close>: the 40 lower-case hexadecimal digits of the 160-bit digest, the
  most significant first. A path is the directory and the file name in it.
\<close>

definition hexdigest :: "160 word \<Rightarrow> pystr" where
  "hexdigest w = map (\<lambda>i. hexdigit (unat (and (drop_bit (4 * (39 - i)) w) 15))) [0..<40]"

type_synonym path = "pystr \<times> pystr"

definition py_or :: "pystr \<Rightarrow> pystr \<Rightarrow> pystr" where
  "py_or a b = (if a \<noteq> [] then a else b)"

definition pdf_digest :: "pylib \<Rightarrow> row \<Rightarrow> pystr \<Rightarrow> pystr" where
  "pdf_digest L r detail_url = take 10 (hexdigest (sha1 L (row_key L r @ py ''|'' @ detail_url)))"

definition build_pdf_path :: "pylib \<Rightarrow> pystr \<Rightarrow> row \<Rightarrow> pystr \<Rightarrow> path" where
  "build_pdf_path L output_dir r detail_url =
     (let reg_id = first_row_value_by_markers L r key_markers;
          doc_name = first_row_value_by_markers L r name_markers;
          digest = pdf_digest L r detail_url;
          file_name = sanitize_filename L (py_or reg_id (py ''id'')) @ py ''_''
            @ sanitize_filename L (py_or doc_name (py ''orvos'')) @ py ''_'' @ digest @ py ''.pdf''
      in (output_dir, file_name))"

text \<open>
  A row whose detail link has no \<open>href\<close> and opens an absolute URL from its
  \<open>onclick\<close> script.
\<close>

definition js_row :: row where
  "js_row =
     [(py ''Nev'', PStr (py ''Dr A'')),
      (py ''_detail_text'', PStr (py ''Adatlap megtekintese'')),
      (py ''_detail_href'', PStr []),
      (py ''_detail_onclick'',
         PStr (py ''window.open('' @ [39] @ py ''https://kereso.enkk.hu/orvos/123'' @ [39] @ py '')'')),
      (py ''_detail_url'', PStr []),
      (py ''_row_index'', PInt 1)]"




text \<open>The base URL and the script of \<open>js_row\<close>, and a script with no URL.\<close>

definition base0 :: pystr where
  "base0 = py ''https://kereso.enkk.hu/''"



section \<open>The browser and the file system\<close>

text \<open>
  The scraper drives a browser through Playwright. Every awaited call of the driver
  is a \<open>call\<close> to the environment, which answers with a \<open>reply\<close>; the answer may depend
  on every call made before. A call can fail with \<open>PlaywrightError\<close>, of which
  \<open>PlaywrightTimeoutError\<close> is a subclass. The calls made so far are the \<open>trace\<close> of the
  world; the files written so far are its \<open>files\<close>. Reading \<open>page.url\<close> and testing
  whether a file exists are not calls: they read the state.

  The functions of the form driver that are not looked into here
  (\<open>trigger_name_input_events\<close>, \<open>try_auto_slider\<close>, \<open>wait_for_manual_slider\<close>,
  \<open>wait_for_search_enabled\<close>, \<open>click_search\<close>, \<open>wait_for_results\<close>, \<open>extract_rows\<close>)
  and the scripts evaluated in the page are calls too:
  each answers what the function returns, or raises what it can raise.
\<close>

datatype pw_fail = PwTimeout | PwOther

datatype exn = PlaywrightError pw_fail | RuntimeError pystr

type_synonym page = nat

record response =
  resp_ok :: bool
  content_type :: pyval

record click_result =
  cr_reason :: pyval
  cr_navigated :: bool

record batch =
  rows :: "row list"
  rowCount :: int
  totalHits :: "int option"

datatype call =
    LocatorCount page pystr
  | IsVisible page pystr nat
  | Click page pystr nat
  | Fill page pystr nat pystr
  | TriggerNameInputEvents page
  | TryAutoSlider page int
  | WaitForManualSlider pystr
  | WaitForSearchEnabled page int
  | ClickSearch page bool
  | WaitForResults page int
  | ExtractRows page
  | WaitForTimeout page int
  | NewPage
  | Goto page pystr
  | ResponseBody
  | ClosePage page
  | GoBack page int
  | ClickDetailOnResultsRow page int
  | ExpectPage int
  | WaitForLoadState page int
  | IsProbablyDetailPage page
  | RequestGet pystr int
  | DiscoverPdfLinks page
  | ExpectDownload page pystr nat int
  | SaveAs path
  | EmulateMedia page
  | PagePdf page path

datatype reply =
    RFail pw_fail
  | RRuntimeError pystr
  | RUnit
  | RBool bool
  | RNat nat
  | RPage page
  | RResponse "response option"
  | RClick click_result
  | RLinks "pystr list"
  | RBatch batch

record env =
  answer :: "call list \<Rightarrow> call \<Rightarrow> reply"
  page_url :: "call list \<Rightarrow> page \<Rightarrow> pystr"

record world =
  trace :: "call list"
  files :: "path list"

text \<open>
  A computation changes the world and returns a value or raises. The retrieval chain
  and the locator loops have no \<open>raise\<close> of their own and call nothing but the driver,
  so what they raise is a \<open>PlaywrightError\<close>: their error type is \<open>pw_fail\<close>. Where
  \<open>RuntimeError\<close> can be raised the error type is \<open>exn\<close>.
\<close>

type_synonym ('e, 'a) io = "world \<Rightarrow> ('e + 'a) \<times> world"

definition return :: "'a \<Rightarrow> ('e, 'a) io" where
  "return x = (\<lambda>w. (Inr x, w))"

definition throw :: "'e \<Rightarrow> ('e, 'a) io" where
  "throw e = (\<lambda>w. (Inl e, w))"

definition bind :: "('e, 'a) io \<Rightarrow> ('a \<Rightarrow> ('e, 'b) io) \<Rightarrow> ('e, 'b) io" where
  "bind m f = (\<lambda>w. case m w of (Inl e, w') \<Rightarrow> (Inl e, w') | (Inr x, w') \<Rightarrow> f x w')"

text \<open>\<open>try: m except PlaywrightError: h\<close>.\<close>

definition catch_pw :: "(pw_fail, 'a) io \<Rightarrow> (pw_fail, 'a) io \<Rightarrow> (pw_fail, 'a) io" where
  "catch_pw m h = (\<lambda>w. case m w of (Inl f, w') \<Rightarrow> h w' | (Inr x, w') \<Rightarrow> (Inr x, w'))"

text \<open>A computation of the driver where \<open>RuntimeError\<close> can be raised as well.\<close>

definition raising :: "(pw_fail, 'a) io \<Rightarrow> (exn, 'a) io" where
  "raising m = (\<lambda>w. case m w of
       (Inl f, w') \<Rightarrow> (Inl (PlaywrightError f), w')
     | (Inr x, w') \<Rightarrow> (Inr x, w'))"

text \<open>
  A call is appended to the trace and answered. A reply that does not fit the call is
  read as a failure of the call; \<open>click_search\<close> can raise \<open>RuntimeError\<close> as well.
\<close>

definition perform :: "env \<Rightarrow> call \<Rightarrow> world \<Rightarrow> reply \<times> world" where
  "perform E c w = (answer E (trace w) c, w\<lparr>trace := trace w @ [c]\<rparr>)"

definition call_unit :: "env \<Rightarrow> call \<Rightarrow> (pw_fail, unit) io" where
  "call_unit E c = (\<lambda>w. case perform E c w of
       (RUnit, w') \<Rightarrow> (Inr (), w')
     | (RFail f, w') \<Rightarrow> (Inl f, w')
     | (_, w') \<Rightarrow> (Inl PwOther, w'))"

definition call_bool :: "env \<Rightarrow> call \<Rightarrow> (pw_fail, bool) io" where
  "call_bool E c = (\<lambda>w. case perform E c w of
       (RBool b, w') \<Rightarrow> (Inr b, w')
     | (RFail f, w') \<Rightarrow> (Inl f, w')
     | (_, w') \<Rightarrow> (Inl PwOther, w'))"

definition call_nat :: "env \<Rightarrow> call \<Rightarrow> (pw_fail, nat) io" where
  "call_nat E c = (\<lambda>w. case perform E c w of
       (RNat n, w') \<Rightarrow> (Inr n, w')
     | (RFail f, w') \<Rightarrow> (Inl f, w')
     | (_, w') \<Rightarrow> (Inl PwOther, w'))"

definition call_page :: "env \<Rightarrow> call \<Rightarrow> (pw_fail, page) io" where
  "call_page E c = (\<lambda>w. case perform E c w of
       (RPage p, w') \<Rightarrow> (Inr p, w')
     | (RFail f, w') \<Rightarrow> (Inl f, w')
     | (_, w') \<Rightarrow> (Inl PwOther, w'))"

definition call_response :: "env \<Rightarrow> call \<Rightarrow> (pw_fail, response option) io" where
  "call_response E c = (\<lambda>w. case perform E c w of
       (RResponse r, w') \<Rightarrow> (Inr r, w')
     | (RFail f, w') \<Rightarrow> (Inl f, w')
     | (_, w') \<Rightarrow> (Inl PwOther, w'))"

definition call_click :: "env \<Rightarrow> call \<Rightarrow> (pw_fail, click_result) io" where
  "call_click E c = (\<lambda>w. case perform E c w of
       (RClick r, w') \<Rightarrow> (Inr r, w')
     | (RFail f, w') \<Rightarrow> (Inl f, w')
     | (_, w') \<Rightarrow> (Inl PwOther, w'))"

definition call_links :: "env \<Rightarrow> call \<Rightarrow> (pw_fail, pystr list) io" where
  "call_links E c = (\<lambda>w. case perform E c w of
       (RLinks ls, w') \<Rightarrow> (Inr ls, w')
     | (RFail f, w') \<Rightarrow> (Inl f, w')
     | (_, w') \<Rightarrow> (Inl PwOther, w'))"

definition call_batch :: "env \<Rightarrow> call \<Rightarrow> (pw_fail, batch) io" where
  "call_batch E c = (\<lambda>w. case perform E c w of
       (RBatch b, w') \<Rightarrow> (Inr b, w')
     | (RFail f, w') \<Rightarrow> (Inl f, w')
     | (_, w') \<Rightarrow> (Inl PwOther, w'))"

definition click_search :: "env \<Rightarrow> page \<Rightarrow> bool \<Rightarrow> (exn, unit) io" where
  "click_search E p allow_force_submit =
     (\<lambda>w. case perform E (ClickSearch p allow_force_submit) w of
       (RUnit, w') \<Rightarrow> (Inr (), w')
     | (RFail f, w') \<Rightarrow> (Inl (PlaywrightError f), w')
     | (RRuntimeError m, w') \<Rightarrow> (Inl (RuntimeError m), w')
     | (_, w') \<Rightarrow> (Inl (PlaywrightError PwOther), w'))"

text \<open>\<open>page.url\<close>, \<open>destination.exists()\<close>, and the file a write leaves behind.\<close>

definition get_url :: "env \<Rightarrow> page \<Rightarrow> ('e, pystr) io" where
  "get_url E p = (\<lambda>w. (Inr (page_url E (trace w) p), w))"

definition file_exists :: "path \<Rightarrow> world \<Rightarrow> bool" where
  "file_exists f w \<longleftrightarrow> f \<in> set (files w)"

definition write_file :: "path \<Rightarrow> ('e, unit) io" where
  "write_file f = (\<lambda>w. (Inr (), w\<lparr>files := f # files w\<rparr>))"

section \<open>Form driver: the search field\<close>

definition NAME_INPUT_SELECTORS :: "pystr list" where
  "NAME_INPUT_SELECTORS =
     [py ''input[name*='' @ [34] @ py ''nev'' @ [34] @ py '' i]'',
      py ''input[id*='' @ [34] @ py ''nev'' @ [34] @ py '' i]'',
      py ''input[placeholder*='' @ [34] @ py ''N'' @ [233] @ py ''v'' @ [34] @ py '' i]'',
      py ''input[placeholder*='' @ [34] @ py ''nev'' @ [34] @ py '' i]'',
      py ''input[type='' @ [39] @ py ''text'' @ [39] @ py '']'']"

text \<open>
  \<open>first_visible\<close>: for every selector, the matches are counted and tried in order; a
  match whose visibility test raises is skipped. The result is the selector and the
  index of the first visible match, or \<open>None\<close>.
\<close>

fun first_visible_nth ::
    "env \<Rightarrow> page \<Rightarrow> pystr \<Rightarrow> nat list \<Rightarrow> (pw_fail, nat option) io" where
  "first_visible_nth E p selector [] = return None"
| "first_visible_nth E p selector (idx # idxs) =
     (\<lambda>w. case call_bool E (IsVisible p selector idx) w of
        (Inr True, w') \<Rightarrow> (Inr (Some idx), w')
      | (Inr False, w') \<Rightarrow> first_visible_nth E p selector idxs w'
      | (Inl f, w') \<Rightarrow> first_visible_nth E p selector idxs w')"

fun first_visible ::
    "env \<Rightarrow> page \<Rightarrow> pystr list \<Rightarrow> (pw_fail, (pystr \<times> nat) option) io" where
  "first_visible E p [] = return None"
| "first_visible E p (selector # selectors) =
     bind (call_nat E (LocatorCount p selector)) (\<lambda>count.
     bind (first_visible_nth E p selector [0..<count]) (\<lambda>found.
       case found of
         Some idx \<Rightarrow> return (Some (selector, idx))
       | None \<Rightarrow> first_visible E p selectors))"

definition fill_name :: "env \<Rightarrow> page \<Rightarrow> pystr \<Rightarrow> (exn, unit) io" where
  "fill_name E p name_fragment =
     bind (raising (first_visible E p NAME_INPUT_SELECTORS)) (\<lambda>field.
       case field of
         None \<Rightarrow> throw (RuntimeError (py ''Nem talaltam nevet fogado input mezot.''))
       | Some (selector, idx) \<Rightarrow>
           bind (raising (call_unit E (Click p selector idx))) (\<lambda>_.
           raising (call_unit E (Fill p selector idx name_fragment))))"

section \<open>Artifact Retrieval Chain\<close>

text \<open>
  \<open>try_download_pdf_by_url\<close>: a failed request is \<open>False\<close>; reading the body is outside
  the handler, so its failure propagates.
\<close>

definition try_download_pdf_by_url ::
    "env \<Rightarrow> pylib \<Rightarrow> pystr \<Rightarrow> path \<Rightarrow> int \<Rightarrow> (pw_fail, bool) io" where
  "try_download_pdf_by_url E L pdf_url destination timeout_ms =
     bind (catch_pw (call_response E (RequestGet pdf_url timeout_ms)) (return None)) (\<lambda>resp.
       case resp of
         None \<Rightarrow> return False
       | Some r \<Rightarrow>
           if \<not> resp_ok r then return False
           else if \<not> contains (casefold L (normalize (content_type r))) (py ''pdf'')
                   \<and> \<not> contains (casefold L pdf_url) (py ''.pdf'')
           then return False
           else bind (call_unit E ResponseBody) (\<lambda>_.
                bind (write_file destination) (\<lambda>_. return True)))"

definition PRINT_SELECTORS :: "pystr list" where
  "PRINT_SELECTORS =
     [py ''a:has(img[src*='' @ [39] @ py ''print'' @ [39] @ py ''])'',
      py ''a:has(img[src*='' @ [39] @ py ''printer'' @ [39] @ py ''])'',
      py ''a:has-text('' @ [39] @ py ''Nyomtat'' @ [39] @ py '')'',
      py ''button:has-text('' @ [39] @ py ''Nyomtat'' @ [39] @ py '')'',
      py ''img[src*='' @ [39] @ py ''print'' @ [39] @ py '']'',
      py ''img[src*='' @ [39] @ py ''printer'' @ [39] @ py '']'']"

text \<open>
  \<open>try_click_print_download\<close>: the first five matches of every selector; an invisible
  match, or one whose test raises, is skipped; a click that brings no download in
  time, or fails, or whose download cannot be saved, is skipped as well.
\<close>

fun click_print_nth ::
    "env \<Rightarrow> page \<Rightarrow> path \<Rightarrow> int \<Rightarrow> pystr \<Rightarrow> nat list \<Rightarrow> (pw_fail, bool) io" where
  "click_print_nth E p destination timeout_ms selector [] = return False"
| "click_print_nth E p destination timeout_ms selector (idx # idxs) =
     bind (catch_pw (call_bool E (IsVisible p selector idx)) (return False)) (\<lambda>visible.
       if \<not> visible then click_print_nth E p destination timeout_ms selector idxs
       else
         bind (catch_pw
                 (bind (call_unit E (ExpectDownload p selector idx timeout_ms)) (\<lambda>_.
                  bind (call_unit E (SaveAs destination)) (\<lambda>_.
                  bind (write_file destination) (\<lambda>_. return True))))
                 (return False)) (\<lambda>saved.
           if saved then return True
           else click_print_nth E p destination timeout_ms selector idxs))"

fun click_print_selectors ::
    "env \<Rightarrow> page \<Rightarrow> path \<Rightarrow> int \<Rightarrow> pystr list \<Rightarrow> (pw_fail, bool) io" where
  "click_print_selectors E p destination timeout_ms [] = return False"
| "click_print_selectors E p destination timeout_ms (selector # selectors) =
     bind (call_nat E (LocatorCount p selector)) (\<lambda>count.
     bind (click_print_nth E p destination timeout_ms selector [0..<min count 5]) (\<lambda>done.
       if done then return True
       else click_print_selectors E p destination timeout_ms selectors))"

definition try_click_print_download ::
    "env \<Rightarrow> page \<Rightarrow> path \<Rightarrow> int \<Rightarrow> (pw_fail, bool) io" where
  "try_click_print_download E p destination timeout_ms =
     click_print_selectors E p destination timeout_ms PRINT_SELECTORS"

text \<open>The loop of \<open>extract_pdf_from_open_detail_page\<close> over the discovered links.\<close>

fun download_first_link ::
    "env \<Rightarrow> pylib \<Rightarrow> path \<Rightarrow> int \<Rightarrow> pystr list \<Rightarrow> (pw_fail, bool) io" where
  "download_first_link E L destination timeout_ms [] = return False"
| "download_first_link E L destination timeout_ms (pdf_url # pdf_links) =
     bind (try_download_pdf_by_url E L pdf_url destination timeout_ms) (\<lambda>ok.
       if ok then return True
       else download_first_link E L destination timeout_ms pdf_links)"

definition extract_pdf_from_open_detail_page ::
    "env \<Rightarrow> pylib \<Rightarrow> page \<Rightarrow> path \<Rightarrow> int \<Rightarrow> bool \<Rightarrow> (pw_fail, bool \<times> pystr) io" where
  "extract_pdf_from_open_detail_page E L detail_page destination timeout_ms page_pdf_fallback =
     bind (call_bool E (IsProbablyDetailPage detail_page)) (\<lambda>is_detail.
       if \<not> is_detail then return (False, py ''nem_adatlap_oldal'')
       else
         bind (get_url E detail_page) (\<lambda>url.
          bind (if normalize (PStr url) \<noteq> []
                then try_download_pdf_by_url E L (normalize (PStr url)) destination timeout_ms
                else return False) (\<lambda>got.
            if got then return (True, py ''detail_url_pdf'')
            else
              bind (call_links E (DiscoverPdfLinks detail_page)) (\<lambda>pdf_links.
              bind (download_first_link E L destination timeout_ms pdf_links) (\<lambda>got_link.
                if got_link then return (True, py ''pdf_link'')
                else
                  bind (try_click_print_download E detail_page destination timeout_ms) (\<lambda>printed.
                    if printed then return (True, py ''print_download'')
                    else if page_pdf_fallback then
                      bind (call_bool E (IsProbablyDetailPage detail_page)) (\<lambda>still_detail.
                        if \<not> still_detail then return (False, py ''nem_adatlap_oldal'')
                        else
                          bind (call_unit E (EmulateMedia detail_page)) (\<lambda>_.
                          bind (call_unit E (PagePdf detail_page destination)) (\<lambda>_.
                          bind (write_file destination) (\<lambda>_.
                          return (True, py ''page_pdf'')))))
                    else return (False, py ''nincs_pdf_mod'')))))))"

text \<open>
  \<open>int(row_index_raw)\<close>: \<open>None\<close> where Python raises \<open>TypeError\<close> or \<open>ValueError\<close>.
\<close>

fun py_int :: "pylib \<Rightarrow> pyval \<Rightarrow> int option" where
  "py_int L PNone = None"
| "py_int L (PInt i) = Some i"
| "py_int L (PStr s) = int_of_str L s"

text \<open>
  \<open>open_detail_page_from_results_row\<close>. The row is clicked while a new page is
  awaited. When the click, the wait or the load of the popup times out, the handler
  (\<open>after_click_timeout\<close>) clicks if no click has returned yet, waits, and takes the
  listing page itself as the detail page if it has navigated. Any other failure
  propagates, and so does every failure inside the handler.
\<close>

definition after_click_timeout ::
    "env \<Rightarrow> page \<Rightarrow> int \<Rightarrow> int \<Rightarrow> pystr \<Rightarrow> click_result option
      \<Rightarrow> (pw_fail, page option \<times> pystr) io" where
  "after_click_timeout E p row_index timeout_ms old_url click_result =
     bind (case click_result of
             None \<Rightarrow> call_click E (ClickDetailOnResultsRow p row_index)
           | Some r \<Rightarrow> return r) (\<lambda>r.
     bind (call_unit E (WaitForTimeout p 350)) (\<lambda>_.
     bind (get_url E p) (\<lambda>url.
       if url \<noteq> old_url \<or> cr_navigated r
       then bind (call_unit E (WaitForLoadState p timeout_ms)) (\<lambda>_.
            return (Some p, py ''same_tab''))
       else return (None, py_or (normalize (cr_reason r)) (py ''detail_click_timeout'')))))"

text \<open>
  The \<open>try\<close> block of \<open>open_detail_page_from_results_row\<close>, with the variable
  \<open>click_result\<close> as it stands when the block is left.
\<close>

definition click_and_await_popup ::
    "env \<Rightarrow> page \<Rightarrow> int \<Rightarrow> int
      \<Rightarrow> world \<Rightarrow> ((pw_fail + page option \<times> pystr) \<times> click_result option) \<times> world" where
  "click_and_await_popup E p row_index timeout_ms w =
     (case call_click E (ClickDetailOnResultsRow p row_index) w of
        (Inl e, w1) \<Rightarrow> ((Inl e, None), w1)
      | (Inr click_result, w1) \<Rightarrow>
          (case bind (call_page E (ExpectPage timeout_ms)) (\<lambda>popup.
                bind (call_unit E (WaitForLoadState popup timeout_ms)) (\<lambda>_.
                return (Some popup, py ''popup''))) w1
           of (res, w2) \<Rightarrow> ((res, Some click_result), w2)))"

definition open_detail_page_from_results_row ::
    "env \<Rightarrow> pylib \<Rightarrow> page \<Rightarrow> row \<Rightarrow> int \<Rightarrow> (pw_fail, page option \<times> pystr) io" where
  "open_detail_page_from_results_row E L p r timeout_ms =
     (case py_int L (dict_get r (py ''_row_index'')) of
        None \<Rightarrow> return (None, py ''nincs_row_index'')
      | Some i \<Rightarrow> (\<lambda>w.
          (let row_index = max 1 i; old_url = page_url E (trace w) p in
           case click_and_await_popup E p row_index timeout_ms w of
             ((Inl PwTimeout, click_result), w1) \<Rightarrow>
               after_click_timeout E p row_index timeout_ms old_url click_result w1
           | ((res, click_result), w1) \<Rightarrow> (res, w1))))"

text \<open>
  The local variables of \<open>download_pdf_for_row\<close> that its \<open>finally\<close> block reads.
\<close>

record locals =
  detail_page :: "page option"
  own_page :: bool
  opened_same_tab :: bool

text \<open>
  The \<open>try\<close> block: its outcome, and the local variables as they stand when it is
  left, by \<open>return\<close> or by an exception.
\<close>

definition download_try ::
    "env \<Rightarrow> pylib \<Rightarrow> page \<Rightarrow> row \<Rightarrow> pystr \<Rightarrow> path \<Rightarrow> int \<Rightarrow> bool
      \<Rightarrow> world \<Rightarrow> ((pw_fail + bool \<times> pystr) \<times> locals) \<times> world" where
  "download_try E L p r detail_url destination timeout_ms page_pdf_fallback w =
     (let none = \<lparr>detail_page = None, own_page = False, opened_same_tab = False\<rparr> in
      if detail_url \<noteq> [] then
        (case call_page E NewPage w of
           (Inl e, w1) \<Rightarrow> ((Inl e, none), w1)
         | (Inr dp, w1) \<Rightarrow>
             (let own = \<lparr>detail_page = Some dp, own_page = True, opened_same_tab = False\<rparr> in
              case
                bind (call_response E (Goto dp detail_url)) (\<lambda>resp.
                  case resp of
                    Some rsp \<Rightarrow>
                      if contains (casefold L (normalize (content_type rsp))) (py ''pdf'')
                      then bind (call_unit E ResponseBody) (\<lambda>_.
                           bind (write_file destination) (\<lambda>_.
                           return (True, py ''kozvetlen_pdf'')))
                      else extract_pdf_from_open_detail_page E L dp destination timeout_ms
                             page_pdf_fallback
                  | None \<Rightarrow>
                      extract_pdf_from_open_detail_page E L dp destination timeout_ms
                        page_pdf_fallback) w1
              of (res, w2) \<Rightarrow> ((res, own), w2)))
      else
        (case open_detail_page_from_results_row E L p r timeout_ms w of
           (Inl e, w1) \<Rightarrow> ((Inl e, none), w1)
         | (Inr (None, open_method), w1) \<Rightarrow> ((Inr (False, open_method), none), w1)
         | (Inr (Some dp, open_method), w1) \<Rightarrow>
             (let same = (open_method = py ''same_tab'');
                  vars = \<lparr>detail_page = Some dp, own_page = \<not> same, opened_same_tab = same\<rparr>
              in case extract_pdf_from_open_detail_page E L dp destination timeout_ms
                        page_pdf_fallback w1
                 of (res, w2) \<Rightarrow> ((res, vars), w2))))"

text \<open>
  The \<open>finally\<close> block: the page opened for the retrieval is closed; after a
  navigation in place the listing is restored, failures of that being swallowed.
\<close>

definition download_finally :: "env \<Rightarrow> page \<Rightarrow> int \<Rightarrow> locals \<Rightarrow> (pw_fail, unit) io" where
  "download_finally E p timeout_ms vars =
     bind (case detail_page vars of
             Some dp \<Rightarrow> if own_page vars then call_unit E (ClosePage dp) else return ()
           | None \<Rightarrow> return ()) (\<lambda>_.
       if opened_same_tab vars then
         catch_pw (bind (call_unit E (GoBack p timeout_ms)) (\<lambda>_.
                   call_unit E (WaitForResults p (min 3000 timeout_ms))))
                  (return ())
       else return ())"

text \<open>
  \<open>download_pdf_for_row\<close>: the destination is computed, and if it exists nothing else
  is done. Otherwise the \<open>try\<close> block runs, \<open>PlaywrightError\<close> is turned into a result,
  and the \<open>finally\<close> block runs; an exception of the \<open>finally\<close> block replaces the result.
\<close>

definition download_pdf_for_row ::
    "env \<Rightarrow> pylib \<Rightarrow> page \<Rightarrow> row \<Rightarrow> pystr \<Rightarrow> int \<Rightarrow> bool \<Rightarrow> (pw_fail, bool \<times> pystr) io" where
  "download_pdf_for_row E L p r output_dir timeout_ms page_pdf_fallback w =
     (let detail_url = detail_url_from_row L r (page_url E (trace w) p);
          destination = build_pdf_path L output_dir r (py_or detail_url (py ''row_click_fallback''))
      in if file_exists destination w then (Inr (True, py ''letezik''), w)
         else
           (case download_try E L p r detail_url destination timeout_ms page_pdf_fallback w of
              ((res, vars), w1) \<Rightarrow>
                (let res' = (case res of
                               Inl f \<Rightarrow> (False, py ''playwright_hiba'')
                             | Inr x \<Rightarrow> x)
                 in case download_finally E p timeout_ms vars w1 of
                      (Inl e, w2) \<Rightarrow> (Inl e, w2)
                    | (Inr _, w2) \<Rightarrow> (Inr res', w2))))"

text \<open>
  \<open>download_pdfs_for_rows\<close>: the rows, cut at \<open>max_per_query\<close> when it is positive, are
  retrieved one after the other; the successes and the failures are counted.
\<close>

fun download_rows ::
    "env \<Rightarrow> pylib \<Rightarrow> page \<Rightarrow> pystr \<Rightarrow> int \<Rightarrow> bool \<Rightarrow> row list \<Rightarrow> nat \<times> nat
      \<Rightarrow> (pw_fail, nat \<times> nat) io" where
  "download_rows E L p output_dir timeout_ms page_pdf_fallback [] counts = return counts"
| "download_rows E L p output_dir timeout_ms page_pdf_fallback (r # rs) counts =
     bind (download_pdf_for_row E L p r output_dir timeout_ms page_pdf_fallback) (\<lambda>res.
       download_rows E L p output_dir timeout_ms page_pdf_fallback rs
         (if fst res then (fst counts + 1, snd counts) else (fst counts, snd counts + 1)))"

definition download_pdfs_for_rows ::
    "env \<Rightarrow> pylib \<Rightarrow> page \<Rightarrow> row list \<Rightarrow> pystr \<Rightarrow> int \<Rightarrow> bool \<Rightarrow> int
      \<Rightarrow> (pw_fail, nat \<times> nat) io" where
  "download_pdfs_for_rows E L p rs output_dir timeout_ms page_pdf_fallback max_per_query =
     (let selected_rows = (if max_per_query > 0 then take (nat max_per_query) rs else rs)
      in download_rows E L p output_dir timeout_ms page_pdf_fallback selected_rows (0, 0))"

section \<open>Query Space Explorer\<close>

text \<open>The command-line arguments that the term loop reads.\<close>

record args =
  alphabet_arg :: pystr
  max_depth :: int
  split_threshold :: int
  query_delay_ms :: int
  results_wait_ms :: int
  slider_wait_ms :: int
  manual_slider_attempts :: int
  manual_slider_wait_ms :: int
  allow_manual_slider :: bool
  force_submit :: bool
  download_pdfs :: bool
  db_only :: bool
  pdf_dir :: pystr
  pdf_timeout_ms :: int
  pdf_fallback_page_pdf :: bool
  max_pdfs_per_query :: int

record overflow =
  ov_term :: pystr
  ov_row_count :: int
  ov_total_hits :: "int option"

text \<open>
  The variables of \<open>run\<close>: the queue of terms, the visited terms, the Record Store
  \<open>collected\<close> (a \<open>dict\<close> from canonical key to row, in insertion order), the overflow
  list and the two counters; and the world.
\<close>

record explorer =
  queue :: "pystr list"
  visited_terms :: "pystr list"
  collected :: "(pystr \<times> row) list"
  unresolved_overflows :: "overflow list"
  pdf_ok_total :: nat
  pdf_fail_total :: nat
  world :: world

text \<open>\<open>list(dict.fromkeys(xs))\<close>: the first occurrence of every element, in order.\<close>

definition dedup_first :: "'a list \<Rightarrow> 'a list" where
  "dedup_first xs = rev (remdups (rev xs))"

text \<open>
  The merge loop: the term is attached to the row, the key is computed, a row whose
  key is not in the store is noted as new, and the row is stored under its key.
\<close>

fun merge_rows ::
    "pylib \<Rightarrow> pystr \<Rightarrow> row list \<Rightarrow> (pystr \<times> row) list \<times> row list
      \<Rightarrow> (pystr \<times> row) list \<times> row list" where
  "merge_rows L term [] acc = acc"
| "merge_rows L term (r # rs) acc =
     (let r' = AList.update (py ''_query'') (PStr term) r;
          key = row_key L r';
          new_unique_rows = (if map_of (fst acc) key = None then snd acc @ [r'] else snd acc)
      in merge_rows L term rs (AList.update key r' (fst acc), new_unique_rows))"

text \<open>The manual slider attempts: the loop breaks when the search button is enabled.\<close>

fun manual_slider :: "env \<Rightarrow> args \<Rightarrow> page \<Rightarrow> pystr \<Rightarrow> nat \<Rightarrow> (pw_fail, bool) io" where
  "manual_slider E A p term 0 = return False"
| "manual_slider E A p term (Suc n) =
     bind (call_unit E (WaitForManualSlider term)) (\<lambda>_.
     bind (call_bool E (WaitForSearchEnabled p (manual_slider_wait_ms A))) (\<lambda>solved.
       if solved then return True else manual_slider E A p term n))"

text \<open>
  The search of one term, up to the extracted batch; \<open>None\<close> when the slider could
  not be solved and the manual fallback is off (the loop goes on to the next term).
\<close>

definition search_term :: "env \<Rightarrow> args \<Rightarrow> page \<Rightarrow> pystr \<Rightarrow> (exn, batch option) io" where
  "search_term E A p term =
     bind (fill_name E p term) (\<lambda>_.
     bind (raising (call_unit E (TriggerNameInputEvents p))) (\<lambda>_.
     bind (raising (call_bool E (TryAutoSlider p (slider_wait_ms A)))) (\<lambda>solved.
       if \<not> solved \<and> \<not> allow_manual_slider A then return None
       else
         bind (if \<not> solved \<and> allow_manual_slider A
               then raising (manual_slider E A p term (nat (manual_slider_attempts A)))
               else return solved) (\<lambda>_.
         bind (click_search E p (force_submit A)) (\<lambda>_.
         bind (raising (call_unit E (WaitForResults p (results_wait_ms A)))) (\<lambda>_.
         bind (raising (call_batch E (ExtractRows p))) (\<lambda>b.
         return (Some b))))))))"

definition is_truncated :: "args \<Rightarrow> batch \<Rightarrow> bool" where
  "is_truncated A b \<longleftrightarrow>
     rowCount b \<ge> split_threshold A
     \<or> (case totalHits b of None \<Rightarrow> False | Some total_hits \<Rightarrow> total_hits > rowCount b)"

definition expansion :: "pystr list \<Rightarrow> pystr \<Rightarrow> pystr list" where
  "expansion alphabet term = map (\<lambda>ch. term @ ch) alphabet"

text \<open>
  The body of the term loop for a term that has just been marked visited. The result
  is the exception that ended the run, if any, and the variables.
\<close>

definition process_term ::
    "env \<Rightarrow> pylib \<Rightarrow> args \<Rightarrow> pystr list \<Rightarrow> page \<Rightarrow> pystr \<Rightarrow> explorer
      \<Rightarrow> exn option \<times> explorer" where
  "process_term E L A alphabet p term st =
     (case search_term E A p term (world st) of
        (Inl e, w) \<Rightarrow> (Some e, st\<lparr>world := w\<rparr>)
      | (Inr None, w) \<Rightarrow> (None, st\<lparr>world := w\<rparr>)
      | (Inr (Some b), w) \<Rightarrow>
          if is_truncated A b \<and> int (length term) < max_depth A then
            (let st1 = st\<lparr>queue := queue st @ expansion alphabet term\<rparr> in
             case call_unit E (WaitForTimeout p (query_delay_ms A)) w of
               (Inl f, w1) \<Rightarrow> (Some (PlaywrightError f), st1\<lparr>world := w1\<rparr>)
             | (Inr _, w1) \<Rightarrow> (None, st1\<lparr>world := w1\<rparr>))
          else
            (let overflows =
                   (if is_truncated A b
                    then unresolved_overflows st
                           @ [\<lparr>ov_term = term, ov_row_count = rowCount b,
                                ov_total_hits = totalHits b\<rparr>]
                    else unresolved_overflows st);
                 merged = merge_rows L term (rows b) (collected st, []);
                 st1 = st\<lparr>unresolved_overflows := overflows, collected := fst merged\<rparr>
             in case (if download_pdfs A \<and> snd merged \<noteq> []
                      then download_pdfs_for_rows E L p (snd merged) (pdf_dir A)
                             (pdf_timeout_ms A) (pdf_fallback_page_pdf A) (max_pdfs_per_query A)
                      else return (0, 0)) w of
                  (Inl f, w1) \<Rightarrow> (Some (PlaywrightError f), st1\<lparr>world := w1\<rparr>)
                | (Inr counts, w1) \<Rightarrow>
                    (let st2 = st1\<lparr>pdf_ok_total := pdf_ok_total st1 + fst counts,
                                   pdf_fail_total := pdf_fail_total st1 + snd counts\<rparr>
                     in case call_unit E (WaitForTimeout p (query_delay_ms A)) w1 of
                          (Inl f, w2) \<Rightarrow> (Some (PlaywrightError f), st2\<lparr>world := w2\<rparr>)
                        | (Inr _, w2) \<Rightarrow> (None, st2\<lparr>world := w2\<rparr>))))"

text \<open>
  \<open>while queue\<close>: the loop takes a number of iterations it may make and gives \<open>None\<close>
  when they do not suffice. \<open>Some\<close> result is the exception that ended the run, if
  any, and the variables at the end.
\<close>

fun term_loop ::
    "nat \<Rightarrow> env \<Rightarrow> pylib \<Rightarrow> args \<Rightarrow> pystr list \<Rightarrow> page \<Rightarrow> explorer
      \<Rightarrow> (exn option \<times> explorer) option" where
  "term_loop 0 E L A alphabet p st = None"
| "term_loop (Suc n) E L A alphabet p st =
     (case queue st of
        [] \<Rightarrow> Some (None, st)
      | term # rest \<Rightarrow>
          if term \<in> set (visited_terms st) then term_loop n E L A alphabet p (st\<lparr>queue := rest\<rparr>)
          else
            (case process_term E L A alphabet p term
                    (st\<lparr>queue := rest, visited_terms := term # visited_terms st\<rparr>) of
               (Some e, st') \<Rightarrow> Some (Some e, st')
             | (None, st') \<Rightarrow> term_loop n E L A alphabet p st'))"

text \<open>
  \<open>run\<close>, from the listing page being open to the rows handed to \<open>save_outputs\<close>:
  \<open>--db-only\<close> switches the downloads off, the alphabet is the distinct characters of
  the argument, each of them a term of the initial queue.
\<close>

definition run_alphabet :: "args \<Rightarrow> pystr list" where
  "run_alphabet A = dedup_first (map (\<lambda>c. [c]) (alphabet_arg A))"

definition initial :: "args \<Rightarrow> world \<Rightarrow> explorer" where
  "initial A w =
     \<lparr>queue = run_alphabet A, visited_terms = [], collected = [], unresolved_overflows = [],
      pdf_ok_total = 0, pdf_fail_total = 0, world = w\<rparr>"

definition run ::
    "nat \<Rightarrow> env \<Rightarrow> pylib \<Rightarrow> args \<Rightarrow> page \<Rightarrow> world \<Rightarrow> (exn option \<times> explorer) option" where
  "run n E L A p w =
     (let A' = (if db_only A then A\<lparr>download_pdfs := False\<rparr> else A)
      in term_loop n E L A' (run_alphabet A') p (initial A' w))"

text \<open>\<open>rows = list(collected.values())\<close>, what \<open>save_outputs\<close> writes.\<close>

definition output_rows :: "explorer \<Rightarrow> row list" where
  "output_rows st = map snd (collected st)"

text \<open>
  A number of iterations that suffices: a term of length \<open>k\<close> below the depth bound
  accounts for itself and for its expansion.
\<close>

fun subtree :: "nat \<Rightarrow> nat \<Rightarrow> nat" where
  "subtree a 0 = 1"
| "subtree a (Suc k) = 1 + a * subtree a k"

definition term_weight :: "args \<Rightarrow> pystr list \<Rightarrow> pystr \<Rightarrow> nat" where
  "term_weight A alphabet term = subtree (length alphabet) (nat (max_depth A) - length term)"

definition budget :: "args \<Rightarrow> pystr list \<Rightarrow> pystr list \<Rightarrow> nat" where
  "budget A alphabet q = sum_list (map (term_weight A alphabet) q)"

text \<open>
  The rows of a sequence of batches as the merge loop stores them, each with its
  term attached and under its key, in processing order; and the Record Store after
  the batches have been merged one after the other.
\<close>

definition keyed :: "pylib \<Rightarrow> pystr \<Rightarrow> row \<Rightarrow> pystr \<times> row" where
  "keyed L term r =
     (let r' = AList.update (py ''_query'') (PStr term) r in (row_key L r', r'))"

definition processed :: "pylib \<Rightarrow> (pystr \<times> row list) list \<Rightarrow> (pystr \<times> row) list" where
  "processed L batches = concat (map (\<lambda>tb. map (keyed L (fst tb)) (snd tb)) batches)"

definition merge_batches ::
    "pylib \<Rightarrow> (pystr \<times> row list) list \<Rightarrow> (pystr \<times> row) list \<Rightarrow> (pystr \<times> row) list" where
  "merge_batches L batches store =
     foldl (\<lambda>c tb. fst (merge_rows L (fst tb) (snd tb) (c, []))) store batches"

text \<open>Storing a list of items under their keys, one after the other.\<close>

definition store_all :: "('k \<times> 'v) list \<Rightarrow> ('k \<times> 'v) list \<Rightarrow> ('k \<times> 'v) list" where
  "store_all kvs c = foldl (\<lambda>c kv. AList.update (fst kv) (snd kv) c) c kvs"

text \<open>
  A term within the depth bound, the seeds counted in: its length is at least 1 and
  at most the larger of 1 and \<open>max_depth\<close>. \<open>run_budget\<close> is the number of iterations
  that suffices for \<open>run\<close>.
\<close>

definition within_depth :: "args \<Rightarrow> pystr \<Rightarrow> bool" where
  "within_depth A term \<longleftrightarrow> 1 \<le> length term \<and> int (length term) \<le> max 1 (max_depth A)"

definition run_budget :: "args \<Rightarrow> nat" where
  "run_budget A = Suc (budget A (run_alphabet A) (run_alphabet A))"

text \<open>
  Arguments, a batch, worlds and two browsers to evaluate on: one in which every
  control is found and every search returns \<open>batch0\<close>, and one in which no control
  is found and every other call but closing a page fails.
\<close>

definition world0 :: world where
  "world0 = \<lparr>trace = [], files = []\<rparr>"

definition args0 :: args where
  "args0 = \<lparr>alphabet_arg = py ''ab'', max_depth = 2, split_threshold = 100,
     query_delay_ms = 900, results_wait_ms = 5000, slider_wait_ms = 350,
     manual_slider_attempts = 3, manual_slider_wait_ms = 3000, allow_manual_slider = True,
     force_submit = True, download_pdfs = False, db_only = False, pdf_dir = py ''data/pdfs'',
     pdf_timeout_ms = 15000, pdf_fallback_page_pdf = False, max_pdfs_per_query = 0\<rparr>"

definition batch0 :: batch where
  "batch0 = \<lparr>rows = [name_city_row], rowCount = 1, totalHits = Some 137\<rparr>"

definition env_found :: env where
  "env_found =
     \<lparr>answer = (\<lambda>h c. case c of
          LocatorCount p s \<Rightarrow> RNat 1
        | IsVisible p s i \<Rightarrow> RBool True
        | TryAutoSlider p t \<Rightarrow> RBool True
        | ExtractRows p \<Rightarrow> RBatch batch0
        | _ \<Rightarrow> RUnit),
      page_url = (\<lambda>h p. base0)\<rparr>"

definition env_blocked :: env where
  "env_blocked =
     \<lparr>answer = (\<lambda>h c. case c of
          LocatorCount p s \<Rightarrow> RNat 0
        | ClosePage p \<Rightarrow> RUnit
        | _ \<Rightarrow> RFail PwOther),
      page_url = (\<lambda>h p. base0)\<rparr>"

definition world_with_pdf :: world where
  "world_with_pdf =
     \<lparr>trace = [],
      files = [build_pdf_path lib0 (py ''data/pdfs'') js_row
                 (py_or (detail_url_from_row lib0 js_row base0) (py ''row_click_fallback''))]\<rparr>"





text \<open>
  A row with an identifier; and a browser whose detail page is not a PDF itself but
  embeds one link to a PDF, with the destination the PDF is saved to.
\<close>

definition id_row :: row where
  "id_row = [(py ''Pecsetszam'', PStr (py ''12345'')), (py ''Nev'', PStr (py ''Dr A''))]"

definition pdf_link0 :: pystr where
  "pdf_link0 = py ''https://kereso.enkk.hu/doc/1.pdf''"

definition env_links :: env where
  "env_links =
     \<lparr>answer = (\<lambda>h c. case c of
          IsProbablyDetailPage p \<Rightarrow> RBool True
        | DiscoverPdfLinks p \<Rightarrow> RLinks [pdf_link0]
        | RequestGet u t \<Rightarrow>
            if u = pdf_link0
            then RResponse (Some \<lparr>resp_ok = True, content_type = PStr (py ''application/pdf'')\<rparr>)
            else RFail PwOther
        | ResponseBody \<Rightarrow> RUnit
        | _ \<Rightarrow> RFail PwOther),
      page_url = (\<lambda>h p. base0)\<rparr>"

definition dest0 :: path where
  "dest0 = (py ''data/pdfs'', py ''12345_Dr_A_0123456789.pdf'')"

section \<open>The retrieval chain as the specification words it\<close>

text \<open>
  The specification describes the extraction from an opened detail view as a
  validation followed by an ordered list of tiers, each attempted once, the first
  success winning and the reason of the last failure being returned. The tiers are:
  a raw fetch of the view's own URL, a raw fetch of every embedded document
  reference until one succeeds, a print or download control, and, only if enabled,
  the rendering of the page. The first three fail with the reason
  \<open>nincs_pdf_mod\<close>; the rendering validates the page again and fails with
  \<open>nem_adatlap_oldal\<close>.
\<close>

definition NO_METHOD :: pystr where "NO_METHOD = py ''nincs_pdf_mod''"
definition NOT_DETAIL :: pystr where "NOT_DETAIL = py ''nem_adatlap_oldal''"

definition tagged :: "pystr \<Rightarrow> (pw_fail, bool) io \<Rightarrow> (pw_fail, bool \<times> pystr) io" where
  "tagged tag m = bind m (\<lambda>ok. return (if ok then (True, tag) else (False, NO_METHOD)))"

definition tier_own_url :: "env \<Rightarrow> pylib \<Rightarrow> page \<Rightarrow> path \<Rightarrow> int \<Rightarrow> (pw_fail, bool \<times> pystr) io" where
  "tier_own_url E L dp destination timeout_ms =
     tagged (py ''detail_url_pdf'')
       (bind (get_url E dp) (\<lambda>url.
          if normalize (PStr url) \<noteq> []
          then try_download_pdf_by_url E L (normalize (PStr url)) destination timeout_ms
          else return False))"

definition tier_embedded_links :: "env \<Rightarrow> pylib \<Rightarrow> page \<Rightarrow> path \<Rightarrow> int \<Rightarrow> (pw_fail, bool \<times> pystr) io" where
  "tier_embedded_links E L dp destination timeout_ms =
     tagged (py ''pdf_link'')
       (bind (call_links E (DiscoverPdfLinks dp))
          (download_first_link E L destination timeout_ms))"

definition tier_print_control :: "env \<Rightarrow> page \<Rightarrow> path \<Rightarrow> int \<Rightarrow> (pw_fail, bool \<times> pystr) io" where
  "tier_print_control E dp destination timeout_ms =
     tagged (py ''print_download'') (try_click_print_download E dp destination timeout_ms)"

definition tier_render_page :: "env \<Rightarrow> page \<Rightarrow> path \<Rightarrow> (pw_fail, bool \<times> pystr) io" where
  "tier_render_page E dp destination =
     bind (call_bool E (IsProbablyDetailPage dp)) (\<lambda>still_detail.
       if \<not> still_detail then return (False, NOT_DETAIL)
       else
         bind (call_unit E (EmulateMedia dp)) (\<lambda>_.
         bind (call_unit E (PagePdf dp destination)) (\<lambda>_.
         bind (write_file destination) (\<lambda>_.
         return (True, py ''page_pdf'')))))"

fun first_success ::
    "pystr \<Rightarrow> (pw_fail, bool \<times> pystr) io list \<Rightarrow> (pw_fail, bool \<times> pystr) io" where
  "first_success last_reason [] = return (False, last_reason)"
| "first_success last_reason (tier # tiers) =
     bind tier (\<lambda>res. if fst res then return res else first_success (snd res) tiers)"

definition extraction_chain ::
    "env \<Rightarrow> pylib \<Rightarrow> page \<Rightarrow> path \<Rightarrow> int \<Rightarrow> bool \<Rightarrow> (pw_fail, bool \<times> pystr) io" where
  "extraction_chain E L dp destination timeout_ms page_pdf_fallback =
     bind (call_bool E (IsProbablyDetailPage dp)) (\<lambda>is_detail.
       if \<not> is_detail then return (False, NOT_DETAIL)
       else first_success NO_METHOD
              ([tier_own_url E L dp destination timeout_ms,
                tier_embedded_links E L dp destination timeout_ms,
                tier_print_control E dp destination timeout_ms]
               @ (if page_pdf_fallback then [tier_render_page E dp destination] else [])))"


section \<open>Properties of the Result Canonicalizer\<close>

lemmas eval_defs = row_key_def lib0_def py_def is_hint_def startswith_def has_marker_def
  key_markers_def name_markers_def ascii_lower_def strip_def strip_chars_def rstrip_chars_def
  is_space_def canonical_def id_values_def name_values_def json_dumps_sorted_def json_item_def
  json_str_def json_escape_char_def

lemma id_scan_update: "is_hint k \<Longrightarrow> id_scan L (AList.update k v r) = id_scan L r"
  by (induction r) (auto simp: Let_def)

lemma name_scan_update: "is_hint k \<Longrightarrow> name_scan L n (AList.update k v r) = name_scan L n r"
  by (induction r arbitrary: n) (auto simp: Let_def)

lemma canonical_update: "is_hint k \<Longrightarrow> canonical (AList.update k v r) = canonical r"
  by (induction r) (auto simp: canonical_def)

text \<open>
  Claim C9. Setting an underscore-prefixed field of a row (\<open>row["_query"] = term\<close>, or
  any other hint) leaves its canonical key unchanged: both loops of \<open>row_key\<close> skip
  such keys and the serialized form leaves them out. So a row has the same key
  whatever term is attached to it.
\<close>

theorem row_key_ignores_hint:
  "(is_hint k \<longrightarrow> row_key L (AList.update k v r) = row_key L r)
   \<and> row_key L (AList.update (py ''_query'') (PStr term1) r)
       = row_key L (AList.update (py ''_query'') (PStr term2) r)"
proof -
  have h: "row_key L (AList.update k' v' r) = row_key L r" if "is_hint k'" for k' v'
    using that
    by (simp add: row_key_def id_scan_update name_scan_update canonical_update
        cong: option.case_cong)
  have "is_hint (py ''_query'')"
    by (simp add: is_hint_def startswith_def py_def)
  then show ?thesis using h by simp
qed

theorem row_key_ignores_hint_witness:
  "row_key lib0 (AList.update (py ''_query'') (PStr (py ''jo'')) name_city_row)
     = row_key lib0 name_city_row
   \<and> row_key lib0 (AList.update (py ''_query'') (PStr (py ''jo'')) name_city_row)
       = row_key lib0 (AList.update (py ''_query'') (PStr (py ''john'')) name_city_row)"
proof -
  have "is_hint (py ''_query'')"
    by (simp add: is_hint_def startswith_def py_def)
  then show ?thesis
    using row_key_ignores_hint[of "py ''_query''" lib0 "PStr (py ''jo'')" name_city_row
        "py ''jo''" "py ''john''"]
    by metis
qed

lemma id_scan_values:
  "id_scan L r = (case id_values L r of [] \<Rightarrow> None | x # _ \<Rightarrow> Some x)"
  by (induction r) (auto simp: id_values_def canonical_def Let_def)

lemma name_scan_values:
  "name_scan L [] r = (case name_values L r of [] \<Rightarrow> [] | x # _ \<Rightarrow> x)"
  by (induction r) (auto simp: name_values_def canonical_def Let_def)

lemma head_of_constant_list:
  assumes "set xs = set ys" "\<forall>x \<in> set xs. \<forall>y \<in> set xs. x = y"
  shows "(case xs of [] \<Rightarrow> a | x # _ \<Rightarrow> f x) = (case ys of [] \<Rightarrow> a | y # _ \<Rightarrow> f y)"
proof (cases xs)
  case Nil
  then show ?thesis using assms(1) by simp
next
  case (Cons x xs')
  then obtain y ys' where ys: "ys = y # ys'"
    using assms(1) by (cases ys) auto
  have "x \<in> set xs" "y \<in> set xs"
    using Cons ys assms(1) by auto
  then have "x = y" using assms(2) by blast
  then show ?thesis using Cons ys by simp
qed

lemma sort_key_fst_unique:
  assumes "distinct (map fst xs)" "distinct (map fst ys)" "set xs = set ys"
  shows "sort_key fst xs = sort_key fst ys"
proof -
  have dx: "distinct xs" and dy: "distinct ys"
    using assms(1,2) by (auto simp: distinct_map)
  have "mset xs = mset ys"
    using dx dy assms(3) by (simp add: set_eq_iff_mset_eq_distinct)
  then have m: "mset xs = mset (sort_key fst ys)" by simp
  have i: "inj_on fst (set xs)"
    using assms(1) by (simp add: distinct_map)
  show ?thesis
    by (rule sort_key_inj_key_eq[OF m i]) simp
qed

lemma distinct_canonical: "distinct (map fst r) \<Longrightarrow> distinct (map fst (canonical r))"
  by (simp add: canonical_def distinct_map_filter)

lemma id_values_set:
  "set (canonical r1) = set (canonical r2) \<Longrightarrow> set (id_values L r1) = set (id_values L r2)"
  by (simp add: id_values_def)

lemma name_values_set:
  "set (canonical r1) = set (canonical r2) \<Longrightarrow> set (name_values L r1) = set (name_values L r2)"
  by (simp add: name_values_def)

text \<open>
  Claim C2, as the code has it. Two rows with the same non-hint items, in any column
  order, have the same canonical key provided the non-empty identifier columns of the
  row all hold one value and, when there is none, its non-empty name columns all hold
  one value. (\<open>row_key\<close> takes the first such column in the order of the row.)
\<close>

theorem row_key_column_order:
  assumes d1: "distinct (map fst r1)" and d2: "distinct (map fst r2)"
    and same: "set (canonical r1) = set (canonical r2)"
    and ids: "\<forall>x \<in> set (id_values L r1). \<forall>y \<in> set (id_values L r1). x = y"
    and names: "id_values L r1 = [] \<longrightarrow>
       (\<forall>x \<in> set (name_values L r1). \<forall>y \<in> set (name_values L r1). x = y)"
  shows "row_key L r1 = row_key L r2"
proof -
  have scan: "id_scan L r1 = id_scan L r2"
    unfolding id_scan_values
    by (rule head_of_constant_list[OF id_values_set[OF same] ids])
  show ?thesis
  proof (cases "id_scan L r1")
    case (Some val)
    then show ?thesis using scan by (simp add: row_key_def)
  next
    case None
    then have "id_values L r1 = []"
      by (simp add: id_scan_values split: list.splits)
    then have "\<forall>x \<in> set (name_values L r1). \<forall>y \<in> set (name_values L r1). x = y"
      using names by simp
    then have n: "name_scan L [] r1 = name_scan L [] r2"
      unfolding name_scan_values
      by (rule head_of_constant_list[OF name_values_set[OF same]])
    have j: "json_dumps_sorted (canonical r1) = json_dumps_sorted (canonical r2)"
      unfolding json_dumps_sorted_def
      using sort_key_fst_unique[OF distinct_canonical[OF d1] distinct_canonical[OF d2] same]
      by simp
    show ?thesis using None scan n j by (simp add: row_key_def)
  qed
qed

theorem row_key_column_order_witness:
  "row_key lib0 name_city_row = row_key lib0 (rev name_city_row)"
  by (rule row_key_column_order) (simp_all add: name_city_row_def eval_defs insert_commute)

text \<open>
  Claim C2 as stated fails: a row with two identifier columns holding different
  values, and the same row with the two columns exchanged, have different keys.
\<close>

theorem row_key_column_order_counterexample:
  "distinct (map fst two_id_row) \<and> distinct (map fst (rev two_id_row))
   \<and> map_of (canonical two_id_row) = map_of (canonical (rev two_id_row))
   \<and> row_key lib0 two_id_row = py ''id:1''
   \<and> row_key lib0 (rev two_id_row) = py ''id:2''
   \<and> row_key lib0 two_id_row \<noteq> row_key lib0 (rev two_id_row)"
  by (simp add: two_id_row_def eval_defs fun_eq_iff)

section \<open>Properties of artifact names and detail URLs\<close>
























section \<open>Properties of the Artifact Retrieval Chain\<close>

lemma pdf_content_type:
  "contains (casefold lib0 (strip (py ''application/pdf''))) (py ''pdf'')"
  by (simp add: eval_defs)

lemma bind_return [simp]: "bind (return x) f = f x"
  by (simp add: bind_def return_def)

lemma bind_assoc: "bind (bind m f) g = bind m (\<lambda>x. bind (f x) g)"
  by (auto simp: bind_def fun_eq_iff split: prod.splits sum.splits)

lemma bind_cong_fun: "(\<And>x. f x = g x) \<Longrightarrow> bind m f = bind m g"
proof -
  assume "\<And>x. f x = g x"
  then have "f = g" by (simp add: fun_eq_iff)
  then show ?thesis by simp
qed

lemma first_success_tagged:
  "first_success r (tagged tag m # tiers)
     = bind m (\<lambda>ok. if ok then return (True, tag) else first_success NO_METHOD tiers)"
  by (simp add: tagged_def bind_assoc cong: if_cong) (rule bind_cong_fun, simp)

lemma first_success_single: "first_success r [tier] = tier"
  by (auto simp: bind_def return_def fun_eq_iff split: prod.splits sum.splits)

text \<open>
  Claim C5. \<open>extract_pdf_from_open_detail_page\<close> is the chain of the specification:
  the page is validated first and a rejected page is the failure
  \<open>nem_adatlap_oldal\<close>; otherwise the tiers run in the order own URL, embedded
  references, print control and, only if enabled, rendering; the first success is
  the result, and when all have failed the result is \<open>False\<close> with the last reason.
\<close>

theorem extract_pdf_is_chain:
  "extract_pdf_from_open_detail_page E L dp destination timeout_ms page_pdf_fallback
     = extraction_chain E L dp destination timeout_ms page_pdf_fallback"
proof -
  have last: "first_success NO_METHOD
                (if page_pdf_fallback then [tier_render_page E dp destination] else [])
              = (if page_pdf_fallback then tier_render_page E dp destination
                 else return (False, NO_METHOD))"
    by (simp add: first_success_single del: first_success.simps(2))
  have "extraction_chain E L dp destination timeout_ms page_pdf_fallback
      = extract_pdf_from_open_detail_page E L dp destination timeout_ms page_pdf_fallback"
    unfolding extraction_chain_def tier_own_url_def tier_embedded_links_def
      tier_print_control_def
    apply (simp only: append_Cons append_Nil first_success_tagged last)
    unfolding extract_pdf_from_open_detail_page_def tier_render_page_def NO_METHOD_def
      NOT_DETAIL_def
    apply (simp only: bind_assoc)
    done
  then show ?thesis by simp
qed

text \<open>
  A detail page whose own URL is no PDF and that embeds a PDF link: the validation,
  the fetch of the page's URL, the discovery and the fetch of the link follow one
  another, and the link is the result.
\<close>

lemma answer_links:
  "answer env_links h c =
     (case c of
          IsProbablyDetailPage p \<Rightarrow> RBool True
        | DiscoverPdfLinks p \<Rightarrow> RLinks [pdf_link0]
        | RequestGet u t \<Rightarrow>
            if u = pdf_link0
            then RResponse (Some \<lparr>resp_ok = True, content_type = PStr (py ''application/pdf'')\<rparr>)
            else RFail PwOther
        | ResponseBody \<Rightarrow> RUnit
        | _ \<Rightarrow> RFail PwOther)"
  by (simp only: env_links_def env.select_convs)

lemma base0_strip: "strip base0 = base0 \<and> base0 \<noteq> [] \<and> base0 \<noteq> pdf_link0"
  by (simp add: base0_def pdf_link0_def eval_defs)

lemma chain_links:
  "extraction_chain env_links lib0 1 dest 15000 False world0
     = (Inr (True, py ''pdf_link''),
        \<lparr>trace = [IsProbablyDetailPage 1, RequestGet base0 15000, DiscoverPdfLinks 1,
                   RequestGet pdf_link0 15000, ResponseBody],
         files = [dest]\<rparr>)"
  by (simp add: extraction_chain_def tier_own_url_def tier_embedded_links_def tagged_def
      try_download_pdf_by_url_def get_url_def bind_def return_def catch_pw_def call_bool_def
      call_links_def call_response_def call_unit_def perform_def answer_links world0_def
      write_file_def base0_strip pdf_content_type env_links_def)

theorem extract_pdf_is_chain_witness:
  "extract_pdf_from_open_detail_page env_links lib0 1 dest0 15000 False world0
     = (Inr (True, py ''pdf_link''),
        \<lparr>trace = [IsProbablyDetailPage 1, RequestGet base0 15000, DiscoverPdfLinks 1,
                   RequestGet pdf_link0 15000, ResponseBody],
         files = [dest0]\<rparr>)"
  using extract_pdf_is_chain[of env_links lib0 1 dest0 15000 False] chain_links[of dest0]
  by simp

text \<open>
  Claim C4. When the destination file of a row exists, \<open>download_pdf_for_row\<close>
  returns \<open>(True, "letezik")\<close> and leaves the world as it is: no call is made and no
  file is written.
\<close>

theorem download_pdf_for_row_exists:
  assumes "file_exists (build_pdf_path L output_dir r
             (py_or (detail_url_from_row L r (page_url E (trace w) p)) (py ''row_click_fallback''))) w"
  shows "download_pdf_for_row E L p r output_dir timeout_ms page_pdf_fallback w
           = (Inr (True, py ''letezik''), w)"
  using assms by (simp add: download_pdf_for_row_def Let_def)


theorem download_pdf_for_row_exists_witness:
  "download_pdf_for_row env_blocked lib0 0 js_row (py ''data/pdfs'') 15000 False world_with_pdf
     = (Inr (True, py ''letezik''), world_with_pdf)"
  by (rule download_pdf_for_row_exists)
     (simp add: file_exists_def world_with_pdf_def env_blocked_def)

section \<open>Properties of the Query Space Explorer\<close>

lemma store_all_Nil [simp]: "store_all [] c = c"
  by (simp add: store_all_def)

lemma store_all_Cons [simp]: "store_all (kv # kvs) c = store_all kvs (AList.update (fst kv) (snd kv) c)"
  by (simp add: store_all_def)

lemma store_all_append [simp]: "store_all (xs @ ys) c = store_all ys (store_all xs c)"
  by (simp add: store_all_def)

lemma merge_rows_store:
  "fst (merge_rows L term rs acc) = store_all (map (keyed L term) rs) (fst acc)"
  by (induction rs arbitrary: acc) (simp_all add: Let_def keyed_def)

lemma merge_batches_store:
  "merge_batches L batches c = store_all (processed L batches) c"
  by (induction batches arbitrary: c)
     (simp_all add: merge_batches_def processed_def merge_rows_store)

lemma store_all_distinct:
  "distinct (map fst c) \<Longrightarrow> distinct (map fst (store_all kvs c))"
  by (induction kvs arbitrary: c) (simp_all add: distinct_update)

lemma store_all_map_of:
  "map_of (store_all kvs c) = map_of (rev kvs @ c)"
proof (induction kvs arbitrary: c)
  case Nil
  then show ?case by simp
next
  case (Cons kv kvs)
  have "map_of (rev kvs @ AList.update (fst kv) (snd kv) c) = map_of (rev kvs @ [kv] @ c)"
    by (cases kv) (simp add: map_of_append update_conv' del: append.simps)
  then show ?case using Cons by simp
qed

lemma dedup_first_snoc:
  "dedup_first (xs @ [x]) = (if x \<in> set xs then dedup_first xs else dedup_first xs @ [x])"
  by (simp add: dedup_first_def)

lemma set_dedup_first [simp]: "set (dedup_first xs) = set xs"
  by (simp add: dedup_first_def)

lemma distinct_dedup_first [simp]: "distinct (dedup_first xs)"
  by (simp add: dedup_first_def)

lemma dedup_first_distinct: "distinct xs \<Longrightarrow> dedup_first xs = xs"
  by (simp add: dedup_first_def distinct_remdups_id)

lemma store_all_keys:
  "distinct (map fst c) \<Longrightarrow> map fst (store_all kvs c) = dedup_first (map fst c @ map fst kvs)"
proof (induction kvs rule: rev_induct)
  case Nil
  then show ?case by (simp add: dedup_first_distinct)
next
  case (snoc kv kvs)
  have keys: "set (map fst (store_all kvs c)) = set (map fst c @ map fst kvs)"
    using snoc by simp
  have "map fst (store_all (kvs @ [kv]) c)
      = (if fst kv \<in> set (map fst (store_all kvs c)) then map fst (store_all kvs c)
         else map fst (store_all kvs c) @ [fst kv])"
    by (simp add: update_keys)
  also have "\<dots> = dedup_first ((map fst c @ map fst kvs) @ [fst kv])"
    unfolding dedup_first_snoc keys using snoc by simp
  finally show ?case by simp
qed

text \<open>
  Claim C3. After any sequence of batches has been merged into an empty Record
  Store, the store has one entry per canonical key, the entry of a key is the row
  processed last under that key, the keys stand in the order of their first
  insertion, and the rows handed to the output are the entries in that order.
\<close>

theorem record_store_last_write_wins:
  "distinct (map fst (merge_batches L batches []))
   \<and> map_of (merge_batches L batches []) = map_of (rev (processed L batches))
   \<and> map fst (merge_batches L batches []) = dedup_first (map fst (processed L batches))
   \<and> output_rows (st\<lparr>collected := merge_batches L batches []\<rparr>)
       = map snd (merge_batches L batches [])"
  by (simp add: merge_batches_store store_all_distinct store_all_map_of store_all_keys
      output_rows_def)

text \<open>
  The same record found under the term \<open>jo\<close> and then under \<open>john\<close>: the store holds
  one entry, the row with the later term.
\<close>

lemma processed_twice:
  "processed lib0 [(py ''jo'', [id_row]), (py ''john'', [id_row])]
     = [(py ''id:12345'', AList.update (py ''_query'') (PStr (py ''jo'')) id_row),
        (py ''id:12345'', AList.update (py ''_query'') (PStr (py ''john'')) id_row)]"
  by (simp add: processed_def keyed_def id_row_def eval_defs)

theorem record_store_last_write_wins_witness:
  "map_of (merge_batches lib0 [(py ''jo'', [id_row]), (py ''john'', [id_row])] []) (py ''id:12345'')
     = Some (AList.update (py ''_query'') (PStr (py ''john'')) id_row)
   \<and> map fst (merge_batches lib0 [(py ''jo'', [id_row]), (py ''john'', [id_row])] [])
       = [py ''id:12345'']"
  using record_store_last_write_wins[of lib0 "[(py ''jo'', [id_row]), (py ''john'', [id_row])]"]
  by (simp add: processed_twice dedup_first_def)






text \<open>The term loop: its effect on the queue, and the iterations it needs.\<close>

lemma process_term_queue:
  "queue (snd (process_term E L A alphabet p term st)) = queue st
   \<or> (int (length term) < max_depth A
      \<and> queue (snd (process_term E L A alphabet p term st)) = queue st @ expansion alphabet term)"
  by (auto simp: process_term_def Let_def split: prod.splits sum.splits option.splits)

lemma process_term_visited:
  "visited_terms (snd (process_term E L A alphabet p term st)) = visited_terms st"
  by (auto simp: process_term_def Let_def split: prod.splits sum.splits option.splits)

lemma budget_append [simp]: "budget A alphabet (xs @ ys) = budget A alphabet xs + budget A alphabet ys"
  by (simp add: budget_def)

lemma budget_Cons [simp]: "budget A alphabet (x # xs) = term_weight A alphabet x + budget A alphabet xs"
  by (simp add: budget_def)

lemma budget_Nil [simp]: "budget A alphabet [] = 0"
  by (simp add: budget_def)

lemma subtree_pos: "0 < subtree a k"
  by (cases k) simp_all

lemma budget_expansion:
  assumes "list_all (\<lambda>ch. length ch = 1) alphabet"
  shows "budget A alphabet' (expansion alphabet term)
           = length alphabet * subtree (length alphabet') (nat (max_depth A) - Suc (length term))"
  using assms by (induction alphabet) (simp_all add: expansion_def term_weight_def)

lemma term_weight_expand:
  assumes "int (length term) < max_depth A" "list_all (\<lambda>ch. length ch = 1) alphabet"
  shows "term_weight A alphabet term = Suc (budget A alphabet (expansion alphabet term))"
proof -
  have "nat (max_depth A) - length term = Suc (nat (max_depth A) - Suc (length term))"
    using assms(1) by linarith
  then show ?thesis
    by (simp add: term_weight_def budget_expansion[OF assms(2)])
qed

lemma term_loop_returns:
  assumes "list_all (\<lambda>ch. length ch = 1) alphabet"
  shows "budget A alphabet (queue st) < n \<Longrightarrow> \<exists>r. term_loop n E L A alphabet p st = Some r"
proof (induction n arbitrary: st)
  case 0
  then show ?case by simp
next
  case (Suc n)
  show ?case
  proof (cases "queue st")
    case Nil
    then show ?thesis by simp
  next
    case (Cons t rest)
    have pos: "0 < term_weight A alphabet t"
      by (simp add: term_weight_def subtree_pos)
    have rest: "budget A alphabet rest < n"
      using Suc.prems Cons pos by simp
    show ?thesis
    proof (cases "t \<in> set (visited_terms st)")
      case True
      then show ?thesis using Cons Suc.IH[of "st\<lparr>queue := rest\<rparr>"] rest by simp
    next
      case False
      let ?st = "st\<lparr>queue := rest, visited_terms := t # visited_terms st\<rparr>"
      obtain e st' where pt: "process_term E L A alphabet p t ?st = (e, st')"
        by (cases "process_term E L A alphabet p t ?st")
      show ?thesis
      proof (cases e)
        case (Some x)
        then show ?thesis using Cons False pt by simp
      next
        case None
        have "budget A alphabet (queue st') < n"
        proof -
          from process_term_queue[of E L A alphabet p t ?st] pt
          consider "queue st' = rest"
            | "int (length t) < max_depth A" "queue st' = rest @ expansion alphabet t"
            by auto
          then show ?thesis
          proof cases
            case 1
            then show ?thesis using rest by simp
          next
            case 2
            then show ?thesis
              using Suc.prems Cons term_weight_expand[OF 2(1) assms] by simp
          qed
        qed
        then obtain r where "term_loop n E L A alphabet p st' = Some r"
          using Suc.IH by blast
        then show ?thesis using Cons False pt None by simp
      qed
    qed
  qed
qed

lemma within_depth_expansion:
  assumes "int (length term) < max_depth A" "list_all (\<lambda>ch. length ch = 1) alphabet"
  shows "list_all (within_depth A) (expansion alphabet term)"
  using assms by (auto simp: list_all_iff expansion_def within_depth_def)

lemma term_loop_within_depth:
  assumes "list_all (\<lambda>ch. length ch = 1) alphabet"
  shows "term_loop n E L A alphabet p st = Some (e, st')
         \<Longrightarrow> list_all (within_depth A) (queue st @ visited_terms st)
         \<Longrightarrow> list_all (within_depth A) (queue st' @ visited_terms st') \<and> (e = None \<longrightarrow> queue st' = [])"
proof (induction n arbitrary: st)
  case 0
  then show ?case by simp
next
  case (Suc n)
  show ?case
  proof (cases "queue st")
    case Nil
    then show ?thesis using Suc.prems by simp
  next
    case (Cons t rest)
    show ?thesis
    proof (cases "t \<in> set (visited_terms st)")
      case True
      then have "term_loop n E L A alphabet p (st\<lparr>queue := rest\<rparr>) = Some (e, st')"
        using Suc.prems(1) Cons by simp
      moreover have "list_all (within_depth A)
                       (queue (st\<lparr>queue := rest\<rparr>) @ visited_terms (st\<lparr>queue := rest\<rparr>))"
        using Suc.prems(2) Cons by simp
      ultimately show ?thesis by (rule Suc.IH)
    next
      case False
      let ?st = "st\<lparr>queue := rest, visited_terms := t # visited_terms st\<rparr>"
      obtain e1 st1 where pt: "process_term E L A alphabet p t ?st = (e1, st1)"
        by (cases "process_term E L A alphabet p t ?st")
      have v: "visited_terms st1 = t # visited_terms st"
        using process_term_visited[of E L A alphabet p t ?st] pt by simp
      have q: "list_all (within_depth A) (queue st1)"
      proof -
        from process_term_queue[of E L A alphabet p t ?st] pt
        consider "queue st1 = rest"
          | "int (length t) < max_depth A" "queue st1 = rest @ expansion alphabet t"
          by auto
        then show ?thesis
        proof cases
          case 1
          then show ?thesis using Suc.prems(2) Cons by simp
        next
          case 2
          then show ?thesis
            using Suc.prems(2) Cons within_depth_expansion[OF 2(1) assms] by simp
        qed
      qed
      have inv: "list_all (within_depth A) (queue st1 @ visited_terms st1)"
        using q v Suc.prems(2) Cons by simp
      show ?thesis
      proof (cases e1)
        case (Some x)
        then have "e = Some x" "st' = st1"
          using Suc.prems(1) Cons False pt by simp_all
        then show ?thesis using inv by simp
      next
        case None
        then have "term_loop n E L A alphabet p st1 = Some (e, st')"
          using Suc.prems(1) Cons False pt by simp
        then show ?thesis using inv by (rule Suc.IH)
      qed
    qed
  qed
qed

lemma run_alphabet_single: "list_all (\<lambda>ch. length ch = 1) (run_alphabet A)"
  by (auto simp: run_alphabet_def list_all_iff)

lemma run_alphabet_within: "list_all (within_depth A) (run_alphabet A)"
  by (auto simp: run_alphabet_def list_all_iff within_depth_def)

text \<open>
  Claim C7, as the code has it. Given \<open>run_budget\<close> iterations or more, \<open>run\<close> returns:
  the term loop terminates, whatever the browser answers. Every term in the queue or
  among the visited terms at the end has a length of at least 1 and at most the
  larger of 1 and \<open>max_depth\<close>, and a run that was not ended by an exception leaves the
  queue empty. (The seeds have length 1 whatever \<open>max_depth\<close> is.)
\<close>

theorem run_terminates_within_depth:
  assumes "run_budget A \<le> n"
  shows "\<exists>e st'. run n E L A p w = Some (e, st')
           \<and> list_all (within_depth A) (queue st' @ visited_terms st')
           \<and> (e = None \<longrightarrow> queue st' = [])"
proof -
  define A' where "A' = (if db_only A then A\<lparr>download_pdfs := False\<rparr> else A)"
  have same: "run_alphabet A' = run_alphabet A" "max_depth A' = max_depth A"
    by (simp_all add: A'_def run_alphabet_def)
  have wd: "within_depth A' = within_depth A"
    by (simp add: fun_eq_iff within_depth_def same)
  have tw: "term_weight A' = term_weight A"
    by (simp add: fun_eq_iff term_weight_def same)
  have b: "budget A' (run_alphabet A') (queue (initial A' w)) < n"
    using assms by (simp add: run_budget_def initial_def same budget_def tw)
  have r: "run n E L A p w = term_loop n E L A' (run_alphabet A') p (initial A' w)"
    by (simp add: run_def A'_def Let_def)
  obtain e st' where t: "term_loop n E L A' (run_alphabet A') p (initial A' w) = Some (e, st')"
    using term_loop_returns[OF run_alphabet_single b] by (metis surj_pair)
  have "list_all (within_depth A') (queue (initial A' w) @ visited_terms (initial A' w))"
    using run_alphabet_within[of A'] by (simp add: initial_def)
  then have "list_all (within_depth A') (queue st' @ visited_terms st') \<and> (e = None \<longrightarrow> queue st' = [])"
    using term_loop_within_depth[OF run_alphabet_single t] by blast
  then show ?thesis using r t wd by simp
qed

lemma run_budget_args0: "run_budget args0 = 7"
  by (simp add: run_budget_def budget_def term_weight_def run_alphabet_def dedup_first_def
      args0_def py_def)

theorem run_terminates_within_depth_witness:
  "\<exists>e st'. run 7 env_found lib0 args0 0 world0 = Some (e, st')
     \<and> list_all (within_depth args0) (queue st' @ visited_terms st')"
  using run_terminates_within_depth[of args0 7 env_found lib0 0 world0] run_budget_args0
  by auto

text \<open>
  Claim C7 as stated fails for \<open>max_depth = 0\<close>: the seeds are enqueued and their
  length exceeds the bound.
\<close>

theorem run_within_depth_counterexample:
  "queue (initial (args0\<lparr>max_depth := 0\<rparr>) world0) = [py ''a'', py ''b'']
   \<and> \<not> int (length (py ''a'')) \<le> max_depth (args0\<lparr>max_depth := 0\<rparr>)"
  by (simp add: initial_def run_alphabet_def dedup_first_def args0_def py_def)

section \<open>Failure propagation\<close>






















end
